theory Spec2Isabelle
  imports Main "HOL-Library.Sublist"
begin

section \<open>Python values and exceptions\<close>

text \<open>
  A function object. Python 2 compares functions by identity, so the object carries an
  identity next to the two attributes the program reads, \<open>__module__\<close> and \<open>__name__\<close>.
\<close>

record fn_obj =
  fn_module :: string
  fn_name :: string
  fn_id :: nat

text \<open>
  The values the program passes around: call arguments, pickled documents, cached query
  results. A dict with string keys is a map, so that HOL equality of two dicts is Python's
  \<open>==\<close> on them (same keys, equal values, no order).
\<close>

datatype pyval =
    VNone
  | VBool bool
  | VInt int
  | VStr string
  | VFn fn_obj
  | VTuple "pyval list"
  | VSet "string set"
  | VDict "string \<Rightarrow> pyval option"

text \<open>The exceptions the program raises or lets through.\<close>

datatype error =
    CalledProcessError "string list"
  | RuntimeError string
  | ValueError string
  | TypeError string
  | IndexError string
  | PickleError string

section \<open>payload.py: the command payload\<close>

text \<open>
  \<open>class Payload\<close>: the attributes set by \<open>__init__\<close>. \<open>VERSION\<close> comes from the
  constants module, which is not part of the sources at hand, and is a parameter of the
  constructor here.
\<close>

record payload =
  fn :: fn_obj
  run_on_daemon :: bool
  client_version :: string
  args :: "pyval list"
  kwargs :: "string \<Rightarrow> pyval option"
  suppress_warnings :: bool

definition Payload :: "string \<Rightarrow> fn_obj \<Rightarrow> pyval list \<Rightarrow> (string \<Rightarrow> pyval option) \<Rightarrow> payload" where
  "Payload VERSION f a k =
     \<lparr>fn = f, run_on_daemon = True, client_version = VERSION,
      args = a, kwargs = k, suppress_warnings = False\<rparr>"

text \<open>
  An arbitrary Python object, as \<open>__eq__\<close> may receive one and as \<open>cPickle.loads\<close> may
  return one: a \<open>Payload\<close> instance or a plain value.
\<close>

datatype pyobj = PayloadObj payload | ValueObj pyval

text \<open>
  \<open>Payload.__eq__\<close>: \<open>isinstance(other, self.__class__)\<close> is the case distinction on the
  object; only \<open>fn\<close>, \<open>args\<close> and \<open>kwargs\<close> are compared.
\<close>

definition payload_eq :: "payload \<Rightarrow> pyobj \<Rightarrow> bool" where
  "payload_eq self other =
     (case other of
        PayloadObj other' \<Rightarrow>
          fn self = fn other' \<and> args self = args other' \<and> kwargs self = kwargs other'
      | ValueObj _ \<Rightarrow> False)"

text \<open>
  \<open>Payload.run\<close>: \<open>self.fn(*self.args, **self.kwargs)\<close> with no \<open>return\<close>. What a function
  object does when called is given by \<open>call\<close>: it acts on a state \<open>'s\<close> and either raises
  or returns a value. An exception of the handler propagates; a returned value is dropped
  and the method falls off its end, which in Python returns \<open>None\<close>.
\<close>

type_synonym 's handler = "pyval list \<Rightarrow> (string \<Rightarrow> pyval option) \<Rightarrow> 's \<Rightarrow> (error + pyval) \<times> 's"

definition run :: "(fn_obj \<Rightarrow> 's handler) \<Rightarrow> payload \<Rightarrow> 's \<Rightarrow> (error + pyval) \<times> 's" where
  "run call self s =
     (case call (fn self) (args self) (kwargs self) s of
        (Inl e, s') \<Rightarrow> (Inl e, s')
      | (Inr _, s') \<Rightarrow> (Inr VNone, s'))"

subsection \<open>The registry of daemon commands\<close>

text \<open>
  \<open>str.join\<close> as a method call with the positional arguments \<open>argv\<close>: it takes exactly
  one argument, an iterable of strings (here a string, iterated character by character),
  and raises \<open>TypeError\<close> for any other number of arguments.
\<close>

fun intercalate :: "string \<Rightarrow> string list \<Rightarrow> string" where
  "intercalate sep [] = []"
| "intercalate sep [x] = x"
| "intercalate sep (x # y # ys) = x @ sep @ intercalate sep (y # ys)"

definition str_join :: "string \<Rightarrow> string list \<Rightarrow> error + string" where
  "str_join sep argv =
     (case argv of
        [it] \<Rightarrow> Inr (intercalate sep (map (\<lambda>c. [c]) it))
      | [_, _] \<Rightarrow> Inl (TypeError ''join() takes exactly one argument (2 given)'')
      | _ \<Rightarrow> Inl (TypeError ''join() takes exactly one argument''))"

text \<open>
  \<open>daemon_command(f)\<close>, acting on the module-level dict \<open>_daemon_command_mapping\<close>. The key
  is computed by \<open>'{}.{}'.join(f.__module__, f.__name__)\<close>, a call of \<open>join\<close> with two
  arguments.
\<close>

definition daemon_command ::
  "fn_obj \<Rightarrow> (string \<Rightarrow> fn_obj option) \<Rightarrow> (error + fn_obj) \<times> (string \<Rightarrow> fn_obj option)" where
  "daemon_command f mapping =
     (case str_join ''{}.{}'' [fn_module f, fn_name f] of
        Inl e \<Rightarrow> (Inl e, mapping)
      | Inr key \<Rightarrow>
          if key \<in> dom mapping \<and> mapping key \<noteq> Some f
          then (Inl (RuntimeError (''Function mapping key collision: '' @ key @
                  ''. Name one of the functions something else'')), mapping)
          else (Inr f, mapping(key \<mapsto> f)))"


section \<open>The string methods the VM module uses\<close>

abbreviation dq :: char where "dq \<equiv> CHR 0x22"
abbreviation nl :: char where "nl \<equiv> CHR 0x0A"
abbreviation cr :: char where "cr \<equiv> CHR 0x0D"
abbreviation bs :: char where "bs \<equiv> CHR 0x5C"
abbreviation sq :: char where "sq \<equiv> CHR 0x27"

text \<open>\<open>sub in s\<close> on strings: \<open>sub\<close> occurs in \<open>s\<close> as a contiguous run.\<close>

primrec str_in :: "string \<Rightarrow> string \<Rightarrow> bool" where
  "str_in sub [] = (sub = [])"
| "str_in sub (c # cs) = (prefix sub (c # cs) \<or> str_in sub cs)"

text \<open>\<open>s.startswith(p)\<close>.\<close>

definition startswith :: "string \<Rightarrow> string \<Rightarrow> bool" where
  "startswith s p = prefix p s"

text \<open>
  \<open>s.splitlines()\<close> on a byte string: a line ends at \<open>\n\<close>, \<open>\r\<close> or \<open>\r\n\<close>, the line ends
  are dropped, and no empty last line is produced.
\<close>

fun splitlines_from :: "string \<Rightarrow> string \<Rightarrow> string list" where
  "splitlines_from cur [] = (if cur = [] then [] else [cur])"
| "splitlines_from cur (c # s) =
     (if c = nl then cur # splitlines_from [] s
      else if c = cr then
        (case s of
           [] \<Rightarrow> [cur]
         | d # s' \<Rightarrow> if d = nl then cur # splitlines_from [] s' else cur # splitlines_from [] s)
      else splitlines_from (cur @ [c]) s)"

definition splitlines :: "string \<Rightarrow> string list" where
  "splitlines s = splitlines_from [] s"

text \<open>\<open>s.split()\<close>: the maximal runs of characters that are not whitespace.\<close>

definition is_space :: "char \<Rightarrow> bool" where
  "is_space c = (c \<in> {CHR '' '', CHR 0x09, nl, CHR 0x0B, CHR 0x0C, cr})"







definition rstrip :: "string \<Rightarrow> string" where
  "rstrip s = rev (dropWhile is_space (rev s))"


text \<open>
  \<open>os.path.join(a, b)\<close> on POSIX paths: an absolute \<open>b\<close> replaces \<open>a\<close>, otherwise the two are
  joined by one slash.
\<close>

definition os_path_join :: "string \<Rightarrow> string \<Rightarrow> string" where
  "os_path_join a b =
     (if startswith b ''/'' then b
      else if a = [] \<or> last a = CHR ''/'' then a @ b
      else a @ ''/'' @ b)"

section \<open>payload.py: serializing a payload\<close>

text \<open>
  The codec \<open>string_escape\<close> of Python 2, which \<open>serialize\<close> applies to the pickled
  document and \<open>deserialize\<close> undoes. Encoding (the \<open>repr\<close> of a byte string without its
  quotes) writes a single quote and a backslash with a backslash before them, tab, newline
  and carriage return as \<open>\t\<close>, \<open>\n\<close>, \<open>\r\<close>, every other byte below 32 or from 127 on as
  \<open>\x\<close> and two lower-case hexadecimal digits, and any other byte as it is. Decoding reads
  the escapes of a Python string literal: the single-letter escapes, up to three octal
  digits, \<open>\x\<close> with exactly two hexadecimal digits, a backslash before a newline as
  nothing, and a backslash before any other character as the two characters themselves; a
  lone backslash at the end and a malformed \<open>\x\<close> raise \<open>ValueError\<close>.
\<close>

definition hexdigit :: "nat \<Rightarrow> char" where
  "hexdigit n = ''0123456789abcdef'' ! n"

definition unhex :: "char \<Rightarrow> nat option" where
  "unhex c = map_of (zip ''0123456789abcdefABCDEF'' ([0 ..< 16] @ [10 ..< 16])) c"

definition octal :: "char \<Rightarrow> nat option" where
  "octal c = map_of (zip ''01234567'' [0 ..< 8]) c"

definition escape_char :: "char \<Rightarrow> string" where
  "escape_char c =
     (if c = sq \<or> c = bs then [bs, c]
      else if c = CHR 0x09 then [bs, CHR ''t'']
      else if c = nl then [bs, CHR ''n'']
      else if c = cr then [bs, CHR ''r'']
      else if (of_char c :: nat) < 32 \<or> 127 \<le> (of_char c :: nat)
        then [bs, CHR ''x'', hexdigit (of_char c div 16), hexdigit (of_char c mod 16)]
      else [c])"

definition string_escape_encode :: "string \<Rightarrow> string" where
  "string_escape_encode s = concat (map escape_char s)"

definition emit :: "char \<Rightarrow> error + string \<Rightarrow> error + string" where
  "emit c r = (case r of Inl e \<Rightarrow> Inl e | Inr s \<Rightarrow> Inr (c # s))"

fun string_escape_decode :: "string \<Rightarrow> error + string" where
  "string_escape_decode [] = Inr []"
| "string_escape_decode (c # s) =
     (if c \<noteq> bs then emit c (string_escape_decode s)
      else case s of
        [] \<Rightarrow> Inl (ValueError (''Trailing '' @ [bs] @ '' in string''))
      | d # s' \<Rightarrow>
          if d = nl then string_escape_decode s'
          else if d = bs then emit bs (string_escape_decode s')
          else if d = sq then emit sq (string_escape_decode s')
          else if d = dq then emit dq (string_escape_decode s')
          else if d = CHR ''b'' then emit (CHR 0x08) (string_escape_decode s')
          else if d = CHR ''f'' then emit (CHR 0x0C) (string_escape_decode s')
          else if d = CHR ''t'' then emit (CHR 0x09) (string_escape_decode s')
          else if d = CHR ''n'' then emit nl (string_escape_decode s')
          else if d = CHR ''r'' then emit cr (string_escape_decode s')
          else if d = CHR ''v'' then emit (CHR 0x0B) (string_escape_decode s')
          else if d = CHR ''a'' then emit (CHR 0x07) (string_escape_decode s')
          else if d = CHR ''x'' then
            (case s' of
               h1 # h2 # s'' \<Rightarrow>
                 (case (unhex h1, unhex h2) of
                    (Some a, Some b) \<Rightarrow> emit (char_of (16 * a + b)) (string_escape_decode s'')
                  | _ \<Rightarrow> Inl (ValueError (''invalid '' @ [bs] @ ''x escape'')))
             | _ \<Rightarrow> Inl (ValueError (''invalid '' @ [bs] @ ''x escape'')))
          else case octal d of
            None \<Rightarrow> emit bs (emit d (string_escape_decode s'))
          | Some o1 \<Rightarrow>
              (case s' of
                 [] \<Rightarrow> Inr [char_of o1]
               | e # t \<Rightarrow>
                   (case octal e of
                      None \<Rightarrow> emit (char_of o1) (string_escape_decode s')
                    | Some o2 \<Rightarrow>
                        (case t of
                           [] \<Rightarrow> Inr [char_of (8 * o1 + o2)]
                         | g # u \<Rightarrow>
                             (case octal g of
                                None \<Rightarrow> emit (char_of (8 * o1 + o2)) (string_escape_decode t)
                              | Some o3 \<Rightarrow>
                                  emit (char_of (8 * (8 * o1 + o2) + o3))
                                    (string_escape_decode u))))))"

text \<open>
  \<open>Payload.serialize\<close> and \<open>Payload.deserialize\<close>. \<open>cPickle\<close> belongs to the standard
  library, not to the program: what \<open>cPickle.dumps\<close> and \<open>cPickle.loads\<close> do is given by
  \<open>dumps\<close> and \<open>loads\<close>, either of which may raise. \<open>deserialize\<close> returns what \<open>loads\<close>
  returns.
\<close>

definition serialize :: "(pyobj \<Rightarrow> error + string) \<Rightarrow> payload \<Rightarrow> error + string" where
  "serialize dumps self =
     (let doc = VDict [''fn'' \<mapsto> VFn (fn self),
                       ''client_version'' \<mapsto> VStr (client_version self),
                       ''suppress_warnings'' \<mapsto> VBool (suppress_warnings self),
                       ''args'' \<mapsto> VTuple (args self),
                       ''kwargs'' \<mapsto> VDict (kwargs self)]
      in case dumps (ValueObj doc) of
           Inl e \<Rightarrow> Inl e
         | Inr pickled \<Rightarrow> Inr (string_escape_encode pickled))"

definition deserialize :: "(string \<Rightarrow> error + pyobj) \<Rightarrow> string \<Rightarrow> error + pyobj" where
  "deserialize loads doc =
     (case string_escape_decode doc of
        Inl e \<Rightarrow> Inl e
      | Inr pickled \<Rightarrow> loads pickled)"

section \<open>Programs with state and exceptions\<close>

text \<open>
  A Python function with side effects is a function from the state to an outcome and the
  new state; the outcome is the raised exception (\<open>Inl\<close>) or the returned value (\<open>Inr\<close>).
  A raised exception skips the rest of the calling function, which is what \<open>bindp\<close> does.
\<close>

type_synonym ('s, 'a) prog = "'s \<Rightarrow> (error + 'a) \<times> 's"

definition return :: "'a \<Rightarrow> ('s, 'a) prog" where
  "return x s = (Inr x, s)"

definition raise :: "error \<Rightarrow> ('s, 'a) prog" where
  "raise e s = (Inl e, s)"

definition bindp :: "('s, 'a) prog \<Rightarrow> ('a \<Rightarrow> ('s, 'b) prog) \<Rightarrow> ('s, 'b) prog" where
  "bindp m f s = (case m s of (Inl e, s') \<Rightarrow> (Inl e, s') | (Inr x, s') \<Rightarrow> f x s')"

definition thenp :: "('s, 'a) prog \<Rightarrow> ('s, 'b) prog \<Rightarrow> ('s, 'b) prog" where
  "thenp m k = bindp m (\<lambda>_. k)"

definition lift :: "error + 'a \<Rightarrow> ('s, 'a) prog" where
  "lift r s = (r, s)"

section \<open>The memoization cache\<close>

text \<open>
  Modelled from the spec: the module \<open>dusty/memoize.py\<close> (\<open>memoized\<close>,
  \<open>reset_memoize_cache\<close>) is not among the sources; only its unit test is. The spec (4.3):
  the cache is process-wide, keyed by the identity of a zero-argument query function, holds
  the result of the first successful invocation, and an explicit global reset clears all
  entries. The key here is the name of the decorated function.
\<close>

record memo =
  cache :: "string \<Rightarrow> pyval option"

definition memoized :: "string \<Rightarrow> ('x memo_scheme, pyval) prog \<Rightarrow> ('x memo_scheme, pyval) prog" where
  "memoized key f s =
     (case cache s key of
        Some v \<Rightarrow> (Inr v, s)
      | None \<Rightarrow>
          (case f s of
             (Inl e, s') \<Rightarrow> (Inl e, s')
           | (Inr v, s') \<Rightarrow> (Inr v, s'\<lparr>cache := (cache s')(key \<mapsto> v)\<rparr>)))"

definition reset_memoize_cache :: "('x memo_scheme, unit) prog" where
  "reset_memoize_cache s = (Inr (), s\<lparr>cache := Map.empty\<rparr>)"

text \<open>
  \<open>tests/unit/memoize_test.py\<close>: the test case holds a counter, and \<open>setUp\<close> decorates a
  function that increments the counter and returns it.
\<close>

record test_case = memo +
  counter :: int

definition memoized_fn :: "(test_case, pyval) prog" where
  "memoized_fn =
     memoized ''memoized_fn''
       (\<lambda>self. (Inr (VInt (counter self + 1)), self\<lparr>counter := counter self + 1\<rparr>))"

section \<open>The process runner and the machine behind it\<close>

text \<open>
  Modelled from the spec: the constants module is not among the sources. The spec (6) has
  a single fixed machine name and fixed remote paths, consumed as opaque strings; the
  required NIC type is the PCnet-FAST III the source's comments name, which VirtualBox
  writes \<open>Am79C973\<close>.
\<close>

definition VM_MACHINE_NAME :: string where "VM_MACHINE_NAME = ''dusty''"
definition VM_NIC_TYPE :: string where "VM_NIC_TYPE = ''Am79C973''"
definition VM_PERSIST_DIR :: string where "VM_PERSIST_DIR = ''/persist''"
definition VM_CP_DIR :: string where "VM_CP_DIR = ''/cp''"
definition VM_ASSETS_DIR :: string where "VM_ASSETS_DIR = ''/persist/dusty_assets''"

datatype vm_status = Absent | Stopped | Running

text \<open>The adapter types VirtualBox knows for a NIC, and how it prints them.\<close>

datatype nic_type = Am79C970A | Am79C973 | I82540EM | I82543GC | I82545EM | Virtio

fun nic_name :: "nic_type \<Rightarrow> string" where
  "nic_name Am79C970A = ''Am79C970A''"
| "nic_name Am79C973 = ''Am79C973''"
| "nic_name I82540EM = ''82540EM''"
| "nic_name I82543GC = ''82543GC''"
| "nic_name I82545EM = ''82545EM''"
| "nic_name Virtio = ''virtio''"

definition nic_of_name :: "string \<Rightarrow> nic_type option" where
  "nic_of_name s =
     (if s = ''Am79C970A'' then Some Am79C970A
      else if s = ''Am79C973'' then Some Am79C973
      else if s = ''82540EM'' then Some I82540EM
      else if s = ''82543GC'' then Some I82543GC
      else if s = ''82545EM'' then Some I82545EM
      else if s = ''virtio'' then Some Virtio
      else None)"

text \<open>
  The state the VM module acts on: the memoization cache of the process, and behind the
  process runner the machine (whether it exists and runs, the type of its NIC 1, the rest
  of its configuration as VirtualBox prints it, the host-only interfaces as VirtualBox
  prints them, the outputs of the two IP queries, the files of the assets directory), the
  configured memory size, and which invocations of the runner exit with a nonzero status
  (\<open>failing w n\<close>: the invocation made after \<open>n\<close> earlier ones). \<open>log\<close> records every command
  line handed to the runner, in order.
\<close>

record world = memo +
  vm_status :: vm_status
  nictype1 :: nic_type
  vminfo_rest :: string
  hostonlyifs :: string
  vm_ip :: string
  bridge_ip :: string
  assets :: "string list"
  mem_size :: string
  failing :: "nat \<Rightarrow> bool"
  log :: "string list list"

definition vm_list_line :: string where
  "vm_list_line = [dq] @ VM_MACHINE_NAME @ [dq] @ '' {5e5a0e36-7c2a-4b66-9d4b-1f0e1f6c2a11}'' @ [nl]"

definition rm_asset_prefix :: string where
  "rm_asset_prefix = ''sudo rm -f '' @ VM_ASSETS_DIR @ ''/''"

text \<open>What a command prints on the given machine.\<close>

definition stdout_of :: "string list \<Rightarrow> world \<Rightarrow> string" where
  "stdout_of argv w =
     (if argv = [''VBoxManage'', ''list'', ''vms'']
        then (if vm_status w \<noteq> Absent then vm_list_line else [])
      else if argv = [''VBoxManage'', ''list'', ''runningvms'']
        then (if vm_status w = Running then vm_list_line else [])
      else if argv = [''VBoxManage'', ''showvminfo'', ''--machinereadable'', VM_MACHINE_NAME]
        then ''nictype1='' @ [dq] @ nic_name (nictype1 w) @ [dq, nl] @ vminfo_rest w
      else if argv = [''VBoxManage'', ''list'', ''hostonlyifs'']
        then hostonlyifs w
      else if argv = [''docker-machine'', ''ip'', VM_MACHINE_NAME]
        then vm_ip w
      else if argv = [''docker-machine'', ''ssh'', VM_MACHINE_NAME,
                      ''ip route | grep docker0 | awk '' @ [CHR 0x27] @ ''{print $NF}'' @ [CHR 0x27]]
        then bridge_ip w
      else if argv = [''docker-machine'', ''ssh'', VM_MACHINE_NAME, ''ls '' @ VM_ASSETS_DIR]
        then concat (map (\<lambda>a. a @ [nl]) (assets w))
      else [])"

text \<open>
  What a command changes on the machine: \<open>docker-machine create\<close> creates and boots the
  machine, with VirtualBox's default type for NIC 1; \<open>stop\<close> and \<open>start\<close> change whether it
  runs; \<open>modifyvm --nictype1\<close> sets the type of NIC 1; \<open>rm -f\<close> of a file of the assets
  directory removes it.
\<close>

definition effect_of :: "string list \<Rightarrow> world \<Rightarrow> world" where
  "effect_of argv w =
     (if take 2 argv = [''docker-machine'', ''create''] \<and> last argv = VM_MACHINE_NAME
        then (if vm_status w = Absent then w\<lparr>vm_status := Running, nictype1 := I82540EM\<rparr> else w)
      else if argv = [''docker-machine'', ''stop'', VM_MACHINE_NAME]
        then (if vm_status w = Running then w\<lparr>vm_status := Stopped\<rparr> else w)
      else if argv = [''docker-machine'', ''start'', VM_MACHINE_NAME]
        then (if vm_status w = Stopped then w\<lparr>vm_status := Running\<rparr> else w)
      else if length argv = 5 \<and>
              take 4 argv = [''VBoxManage'', ''modifyvm'', VM_MACHINE_NAME, ''--nictype1'']
        then (case nic_of_name (argv ! 4) of Some t \<Rightarrow> w\<lparr>nictype1 := t\<rparr> | None \<Rightarrow> w)
      else if length argv = 4 \<and> take 3 argv = [''docker-machine'', ''ssh'', VM_MACHINE_NAME] \<and>
              prefix rm_asset_prefix (argv ! 3)
        then w\<lparr>assets := removeAll (drop (length rm_asset_prefix) (argv ! 3)) (assets w)\<rparr>
      else w)"

text \<open>
  Modelled from the spec: the module \<open>dusty/subprocess.py\<close> is not among the sources. The
  spec (6): the runner takes a command line and gives its output, and fails with an error
  on a nonzero exit status. The three wrappers the VM module imports differ in what they
  return and log, not in that.
\<close>

definition run_process :: "string list \<Rightarrow> (world, string) prog" where
  "run_process argv w =
     (let w' = w\<lparr>log := log w @ [argv]\<rparr> in
      if failing w (length (log w)) then (Inl (CalledProcessError argv), w')
      else (Inr (stdout_of argv w), effect_of argv w'))"

definition check_output_demoted :: "string list \<Rightarrow> (world, string) prog" where
  "check_output_demoted argv = run_process argv"

definition check_and_log_output_and_error_demoted :: "string list \<Rightarrow> (world, string) prog" where
  "check_and_log_output_and_error_demoted argv = run_process argv"

definition check_call_demoted :: "string list \<Rightarrow> (world, unit) prog" where
  "check_call_demoted argv = thenp (run_process argv) (return ())"

section \<open>systems/virtualbox: provisioning the VM\<close>

text \<open>
  The functions of the module, in its order and under its names (a leading underscore is
  dropped). Calls of \<open>log_to_client\<close> and \<open>logging.info\<close> write messages only and are left
  out.
\<close>

definition command_for_vm :: "string \<Rightarrow> string list" where
  "command_for_vm command_list = [''docker-machine'', ''ssh'', VM_MACHINE_NAME] @ [command_list]"

definition run_command_on_vm :: "string \<Rightarrow> (world, string) prog" where
  "run_command_on_vm command_list =
     check_and_log_output_and_error_demoted (command_for_vm command_list)"

definition check_output_on_vm :: "string \<Rightarrow> (world, string) prog" where
  "check_output_on_vm command_list = check_output_demoted (command_for_vm command_list)"

definition ensure_rsync_is_installed :: "(world, unit) prog" where
  "ensure_rsync_is_installed =
     thenp (run_command_on_vm ''which rsync || tce-load -wi rsync || tce-load -wi rsync'')
       (return ())"

definition ensure_persist_dir_is_linked :: "(world, unit) prog" where
  "ensure_persist_dir_is_linked =
     (let mkdir_if_cmd = ''if [ ! -d /mnt/sda1'' @ VM_PERSIST_DIR @
            '' ]; then sudo mkdir /mnt/sda1'' @ VM_PERSIST_DIR @ ''; fi'';
          mount_if_cmd = ''if [ ! -d '' @ VM_PERSIST_DIR @ '' ]; then sudo ln -s /mnt/sda1'' @
            VM_PERSIST_DIR @ '' '' @ VM_PERSIST_DIR @ ''; fi''
      in thenp (run_command_on_vm mkdir_if_cmd) (thenp (run_command_on_vm mount_if_cmd) (return ())))"

definition ensure_vm_dir_exists :: "string \<Rightarrow> (world, unit) prog" where
  "ensure_vm_dir_exists vm_dir =
     (let mkdir_if_cmd = ''if [ ! -d '' @ vm_dir @ '' ]; then sudo mkdir '' @ vm_dir @ ''; fi''
      in thenp (run_command_on_vm mkdir_if_cmd) (return ()))"

definition ensure_cp_dir_exists :: "(world, unit) prog" where
  "ensure_cp_dir_exists = ensure_vm_dir_exists VM_CP_DIR"

definition ensure_assets_dir_exists :: "(world, unit) prog" where
  "ensure_assets_dir_exists = ensure_vm_dir_exists VM_ASSETS_DIR"

text \<open>
  The loop of \<open>_dusty_vm_exists\<close> and of \<open>docker_vm_is_running\<close>: the first line that
  contains the quoted machine name ends it with \<open>True\<close>.
\<close>

fun names_machine :: "string list \<Rightarrow> bool" where
  "names_machine [] = False"
| "names_machine (line # rest) =
     (if str_in ([dq] @ VM_MACHINE_NAME @ [dq]) line then True else names_machine rest)"

definition dusty_vm_exists :: "(world, bool) prog" where
  "dusty_vm_exists =
     bindp (check_output_demoted [''VBoxManage'', ''list'', ''vms''])
       (\<lambda>existing_vms. return (names_machine (splitlines existing_vms)))"

definition apply_nat_dns_host_resolver :: "(world, unit) prog" where
  "apply_nat_dns_host_resolver =
     thenp (check_and_log_output_and_error_demoted
              [''VBoxManage'', ''modifyvm'', VM_MACHINE_NAME, ''--natdnshostresolver1'', ''on''])
       (return ())"

definition apply_nat_net_less_greedy_subnet :: "(world, unit) prog" where
  "apply_nat_net_less_greedy_subnet =
     thenp (check_and_log_output_and_error_demoted
              [''VBoxManage'', ''modifyvm'', VM_MACHINE_NAME, ''--natnet1'', ''10.174.249/24''])
       (return ())"

text \<open>
  \<open>get_config_value(constants.CONFIG_VM_MEM_SIZE)\<close> reads the configuration, which is part
  of the state; \<open>mem_size\<close> is its value as \<open>str\<close> prints it.
\<close>

definition machine_options :: "string \<Rightarrow> string list" where
  "machine_options mem =
     [''--driver'', ''virtualbox'',
      ''--virtualbox-cpu-count'', ''-1'',
      ''--virtualbox-memory'', mem,
      ''--virtualbox-hostonly-nictype'', VM_NIC_TYPE]"

definition init_docker_vm :: "(world, unit) prog" where
  "init_docker_vm =
     bindp dusty_vm_exists (\<lambda>exists.
       if \<not> exists then
         (\<lambda>w. check_call_demoted
                 ([''docker-machine'', ''create''] @ machine_options (mem_size w) @ [VM_MACHINE_NAME]) w)
       else return ())"

definition docker_vm_is_running :: "(world, bool) prog" where
  "docker_vm_is_running =
     bindp (check_output_demoted [''VBoxManage'', ''list'', ''runningvms''])
       (\<lambda>running_vms. return (names_machine (splitlines running_vms)))"

definition start_docker_vm :: "(world, bool) prog" where
  "start_docker_vm =
     bindp docker_vm_is_running (\<lambda>is_running.
       thenp (if \<not> is_running then
                thenp apply_nat_dns_host_resolver
               (thenp apply_nat_net_less_greedy_subnet
               (thenp (check_and_log_output_and_error_demoted
                         [''docker-machine'', ''start'', VM_MACHINE_NAME])
                  (return ())))
              else return ())
         (return is_running))"

definition stop_docker_vm :: "(world, unit) prog" where
  "stop_docker_vm = check_call_demoted [''docker-machine'', ''stop'', VM_MACHINE_NAME]"

definition get_vm_config :: "(world, string list) prog" where
  "get_vm_config =
     bindp (check_output_demoted
              [''VBoxManage'', ''showvminfo'', ''--machinereadable'', VM_MACHINE_NAME])
       (\<lambda>out. return (splitlines out))"

text \<open>The loop of \<open>_vm_not_using_pcnet_fast_iii\<close>.\<close>

fun nictype1_differs :: "string list \<Rightarrow> bool" where
  "nictype1_differs [] = False"
| "nictype1_differs (line # rest) =
     (if str_in ''nictype1'' line \<and> \<not> str_in VM_NIC_TYPE line then True
      else nictype1_differs rest)"

definition vm_not_using_pcnet_fast_iii :: "(world, bool) prog" where
  "vm_not_using_pcnet_fast_iii =
     bindp get_vm_config (\<lambda>config. return (nictype1_differs config))"

definition apply_nic_fix :: "(world, unit) prog" where
  "apply_nic_fix =
     check_call_demoted [''VBoxManage'', ''modifyvm'', VM_MACHINE_NAME, ''--nictype1'', VM_NIC_TYPE]"

definition ensure_docker_vm_is_started :: "(world, bool) prog" where
  "ensure_docker_vm_is_started =
     thenp init_docker_vm
    (bindp vm_not_using_pcnet_fast_iii (\<lambda>differs.
       thenp (if differs then
                thenp (bindp docker_vm_is_running (\<lambda>running.
                         if running then stop_docker_vm else return ()))
                  apply_nic_fix
              else return ())
      (bindp start_docker_vm (\<lambda>was_already_running.
         return was_already_running))))"

definition initialize_docker_vm :: "(world, unit) prog" where
  "initialize_docker_vm =
     bindp ensure_docker_vm_is_started (\<lambda>was_already_running.
       if \<not> was_already_running then
         thenp ensure_rsync_is_installed
        (thenp ensure_persist_dir_is_linked
        (thenp ensure_cp_dir_exists
         ensure_assets_dir_exists))
       else return ())"

subsection \<open>The memoized queries\<close>

definition get_docker_vm_ip :: "(world, pyval) prog" where
  "get_docker_vm_ip =
     memoized ''get_docker_vm_ip''
       (bindp (check_output_demoted [''docker-machine'', ''ip'', VM_MACHINE_NAME])
          (\<lambda>out. return (VStr (rstrip out))))"

definition get_docker_bridge_ip :: "(world, pyval) prog" where
  "get_docker_bridge_ip =
     memoized ''get_docker_bridge_ip''
       (bindp (check_output_demoted
                 [''docker-machine'', ''ssh'', VM_MACHINE_NAME,
                  ''ip route | grep docker0 | awk '' @ [CHR 0x27] @ ''{print $NF}'' @ [CHR 0x27]])
          (\<lambda>out. let result = rstrip out in
             if result = [] then
               raise (ValueError
                 ''Could not get Docker bridge IP from Virtualbox, VM may not be fully initialized'')
             else return (VStr result)))"






subsection \<open>The asset store\<close>

definition get_assets_on_vm :: "(world, pyval) prog" where
  "get_assets_on_vm =
     memoized ''get_assets_on_vm''
       (bindp (check_output_on_vm (''ls '' @ VM_ASSETS_DIR))
          (\<lambda>dir_contents. return (VSet (set (splitlines dir_contents)))))"

definition asset_vm_path :: "string \<Rightarrow> string" where
  "asset_vm_path asset_key = os_path_join VM_ASSETS_DIR asset_key"

text \<open>\<open>key in v\<close> for a string \<open>key\<close>, by the type of \<open>v\<close>.\<close>

definition py_in :: "string \<Rightarrow> pyval \<Rightarrow> error + bool" where
  "py_in key v =
     (case v of
        VSet S \<Rightarrow> Inr (key \<in> S)
      | VStr s \<Rightarrow> Inr (str_in key s)
      | VTuple xs \<Rightarrow> Inr (list_ex (\<lambda>x. case x of VStr s \<Rightarrow> s = key | _ \<Rightarrow> False) xs)
      | VDict m \<Rightarrow> Inr (m key \<noteq> None)
      | _ \<Rightarrow> Inl (TypeError ''argument is not iterable''))"

definition asset_is_set :: "string \<Rightarrow> (world, bool) prog" where
  "asset_is_set asset_key = bindp get_assets_on_vm (\<lambda>listing. lift (py_in asset_key listing))"

definition remove_asset :: "string \<Rightarrow> (world, unit) prog" where
  "remove_asset asset_key =
     thenp (run_command_on_vm (''sudo rm -f '' @ asset_vm_path asset_key)) (return ())"

section \<open>Vocabulary of the statements\<close>

text \<open>
  The command lines of a run of \<open>ensure_docker_vm_is_started\<close> that finds the machine
  running with another type for NIC 1, in the order the source issues them: the three
  probes, stop, the NIC change, the probe of \<open>_start_docker_vm\<close>, the two network settings,
  start.
\<close>

definition start_commands :: "string list list" where
  "start_commands =
     [[''VBoxManage'', ''modifyvm'', ''dusty'', ''--natdnshostresolver1'', ''on''],
      [''VBoxManage'', ''modifyvm'', ''dusty'', ''--natnet1'', ''10.174.249/24''],
      [''docker-machine'', ''start'', ''dusty'']]"

definition nic_fix_commands :: "string list list" where
  "nic_fix_commands =
     [[''VBoxManage'', ''list'', ''vms''],
      [''VBoxManage'', ''showvminfo'', ''--machinereadable'', ''dusty''],
      [''VBoxManage'', ''list'', ''runningvms''],
      [''docker-machine'', ''stop'', ''dusty''],
      [''VBoxManage'', ''modifyvm'', ''dusty'', ''--nictype1'', ''Am79C973''],
      [''VBoxManage'', ''list'', ''runningvms'']] @ start_commands"

text \<open>
  The command lines of the four steps \<open>initialize_docker_vm\<close> runs after the start step
  (\<open>_ensure_persist_dir_is_linked\<close> issues two), and the four steps as one program.
\<close>

definition bootstrap_commands :: "string list list" where
  "bootstrap_commands =
     [[''docker-machine'', ''ssh'', ''dusty'',
       ''which rsync || tce-load -wi rsync || tce-load -wi rsync''],
      [''docker-machine'', ''ssh'', ''dusty'',
       ''if [ ! -d /mnt/sda1/persist ]; then sudo mkdir /mnt/sda1/persist; fi''],
      [''docker-machine'', ''ssh'', ''dusty'',
       ''if [ ! -d /persist ]; then sudo ln -s /mnt/sda1/persist /persist; fi''],
      [''docker-machine'', ''ssh'', ''dusty'', ''if [ ! -d /cp ]; then sudo mkdir /cp; fi''],
      [''docker-machine'', ''ssh'', ''dusty'',
       ''if [ ! -d /persist/dusty_assets ]; then sudo mkdir /persist/dusty_assets; fi'']]"

definition bootstrap :: "(world, unit) prog" where
  "bootstrap =
     thenp ensure_rsync_is_installed
    (thenp ensure_persist_dir_is_linked
    (thenp ensure_cp_dir_exists
     ensure_assets_dir_exists))"

text \<open>
  \<open>appends P m\<close>: whatever the state, \<open>m\<close> only adds command lines to the log, and each one
  it adds satisfies \<open>P\<close>.
\<close>

definition appends :: "(string list \<Rightarrow> bool) \<Rightarrow> (world, 'a) prog \<Rightarrow> bool" where
  "appends P m = (\<forall>w. \<exists>pre. log (snd (m w)) = log w @ pre \<and> list_all P pre)"

definition no_ssh :: "string list \<Rightarrow> bool" where
  "no_ssh argv = (take 2 argv \<noteq> [''docker-machine'', ''ssh''])"

text \<open>
  A machine that runs with VirtualBox's default type for NIC 1, on a host where no
  command fails; the same machine with the required type; and the same machine stopped.
\<close>

definition example_world :: world where
  "example_world =
     \<lparr>cache = Map.empty, vm_status = Running, nictype1 = I82540EM,
      vminfo_rest = ''hostonlyadapter2='' @ [dq] @ ''vboxnet0'' @ [dq, nl],
      hostonlyifs = ''Name:            vboxnet0'' @ [nl] @ ''DHCP:            Disabled'' @ [nl] @
                    ''IPAddress:       192.168.99.1'' @ [nl],
      vm_ip = ''192.168.99.100'' @ [nl], bridge_ip = ''172.17.42.1'' @ [nl],
      assets = [''a'', ''b''], mem_size = ''2048'', failing = (\<lambda>_. False), log = []\<rparr>"

text \<open>The same machine after the assets directory has been listed once.\<close>

definition listed_world :: world where
  "listed_world = example_world\<lparr>cache := [''get_assets_on_vm'' \<mapsto> VSet {''a'', ''b''}]\<rparr>"











text \<open>
  The document \<open>serialize\<close> pickles; a payload, and a pickler that knows the document of
  that payload only, with the text it writes for it and the text after escaping.
\<close>

definition document :: "payload \<Rightarrow> string \<Rightarrow> pyval option" where
  "document p =
     [''fn'' \<mapsto> VFn (fn p),
      ''client_version'' \<mapsto> VStr (client_version p),
      ''suppress_warnings'' \<mapsto> VBool (suppress_warnings p),
      ''args'' \<mapsto> VTuple (args p),
      ''kwargs'' \<mapsto> VDict (kwargs p)]"

definition example_payload :: payload where
  "example_payload =
     Payload ''0.1.0'' \<lparr>fn_module = ''dusty.commands.bundles'', fn_name = ''list_bundles'', fn_id = 0\<rparr>
       [VStr ''arg1''] [''arg2'' \<mapsto> VStr ''arg2value'']"

definition example_pickled :: string where
  "example_pickled = ''(dp1'' @ [nl] @ ''S'' @ [sq] @ ''fn'' @ [sq, nl] @ ''.''"

definition example_wire :: string where
  "example_wire = ''(dp1'' @ [bs] @ ''nS'' @ [bs, sq] @ ''fn'' @ [bs, sq, bs] @ ''n.''"

definition example_dumps :: "pyobj \<Rightarrow> error + string" where
  "example_dumps obj =
     (if obj = ValueObj (VDict (document example_payload)) then Inr example_pickled
      else Inl (PickleError ''cannot pickle this object''))"

definition example_loads :: "string \<Rightarrow> error + pyobj" where
  "example_loads s =
     (if s = example_pickled then Inr (ValueObj (VDict (document example_payload)))
      else Inl (PickleError ''could not find MARK''))"

section \<open>Properties of the payload\<close>

text \<open>
  C8. Two payloads built from the same function reference, positional arguments and
  keyword arguments are equal whatever their \<open>client_version\<close> and \<open>suppress_warnings\<close>
  are, and equality of two payloads is exactly equality of \<open>(fn, args, kwargs)\<close>.
\<close>

theorem payload_eq_ignores_version_and_flags:
  "payload_eq ((Payload v1 f a k)\<lparr>client_version := cv1, suppress_warnings := sw1\<rparr>)
     (PayloadObj ((Payload v2 f a k)\<lparr>client_version := cv2, suppress_warnings := sw2\<rparr>))
   \<and> payload_eq p (PayloadObj q) = (fn p = fn q \<and> args p = args q \<and> kwargs p = kwargs q)"
  by (simp add: payload_eq_def Payload_def)

text \<open>
  C10. \<open>run\<close> calls the stored handler with the stored arguments, takes over its effect
  and its exception, and returns \<open>None\<close> whenever the handler returns: a handler whose
  return value is changed by any function \<open>g\<close> gives the same run.
\<close>

theorem run_discards_handler_result:
  "fst (run call p s) = map_sum id (\<lambda>_. VNone) (fst (call (fn p) (args p) (kwargs p) s))
   \<and> snd (run call p s) = snd (call (fn p) (args p) (kwargs p) s)
   \<and> run (\<lambda>f a k t. case call f a k t of (r, t') \<Rightarrow> (map_sum id g r, t')) p s = run call p s"
  by (cases "call (fn p) (args p) (kwargs p) s"; cases "fst (call (fn p) (args p) (kwargs p) s)")
     (simp_all add: run_def)

text \<open>
  C2 (the code departs from it). Every call of \<open>daemon_command\<close> ends in the \<open>TypeError\<close> of
  \<open>join\<close> called with two arguments, before the registry is read or written: neither the
  no-op on re-registration nor the collision error is ever reached.
\<close>

theorem daemon_command_raises_type_error:
  "daemon_command f mapping =
     (Inl (TypeError ''join() takes exactly one argument (2 given)''), mapping)"
  by (simp add: daemon_command_def str_join_def)

section \<open>Properties of serialization\<close>

subsection \<open>The escaping is reversed exactly\<close>

lemma unhex_hexdigit: "n < 16 \<Longrightarrow> unhex (hexdigit n) = Some n"
proof -
  assume "n < 16"
  then have "n = 0 \<or> n = 1 \<or> n = 2 \<or> n = 3 \<or> n = 4 \<or> n = 5 \<or> n = 6 \<or> n = 7 \<or> n = 8 \<or>
      n = 9 \<or> n = 10 \<or> n = 11 \<or> n = 12 \<or> n = 13 \<or> n = 14 \<or> n = 15"
    by presburger
  then show ?thesis
    by (elim disjE) (simp_all add: hexdigit_def unhex_def upt_rec)
qed

lemma decode_escape_char:
  "string_escape_decode (escape_char c @ t) = emit c (string_escape_decode t)"
proof -
  have lt: "(of_char c :: nat) div 16 < 16" "(of_char c :: nat) mod 16 < 16"
    by (simp_all add: less_mult_imp_div_less)
  have same: "char_of (16 * ((of_char c :: nat) div 16) + of_char c mod 16) = c"
    by simp
  show ?thesis
    using same by (simp add: escape_char_def unhex_hexdigit [OF lt(1)] unhex_hexdigit [OF lt(2)])
qed

lemma string_escape_roundtrip: "string_escape_decode (string_escape_encode s) = Inr s"
  by (induction s) (simp_all add: string_escape_encode_def decode_escape_char emit_def)

lemma serialize_document:
  "serialize dumps p =
     (case dumps (ValueObj (VDict (document p))) of
        Inl e \<Rightarrow> Inl e
      | Inr pickled \<Rightarrow> Inr (string_escape_encode pickled))"
  by (simp add: serialize_def document_def)

subsection \<open>The claim\<close>

text \<open>
  C1 (amended). For every payload whose document pickles and unpickles to itself,
  \<open>serialize\<close> succeeds and \<open>deserialize\<close> of its result gives that document back: a dict
  with the payload's function reference, positional arguments and keyword arguments under
  \<open>fn\<close>, \<open>args\<close> and \<open>kwargs\<close>. The result is a dict and not a \<open>Payload\<close>, so \<open>__eq__\<close> of
  the payload with it is false.
\<close>

theorem deserialize_serialize_gives_document:
  assumes "dumps (ValueObj (VDict (document p))) = Inr pickled"
      and "loads pickled = Inr (ValueObj (VDict (document p)))"
  shows "serialize dumps p = Inr (string_escape_encode pickled)
       \<and> deserialize loads (string_escape_encode pickled) = Inr (ValueObj (VDict (document p)))
       \<and> document p ''fn'' = Some (VFn (fn p))
       \<and> document p ''args'' = Some (VTuple (args p))
       \<and> document p ''kwargs'' = Some (VDict (kwargs p))
       \<and> \<not> payload_eq p (ValueObj (VDict (document p)))"
  using assms
  by (simp add: serialize_document deserialize_def string_escape_roundtrip payload_eq_def
      document_def)

theorem deserialize_serialize_gives_document_witness:
  "serialize example_dumps example_payload = Inr example_wire
   \<and> deserialize example_loads example_wire = Inr (ValueObj (VDict (document example_payload)))
   \<and> document example_payload ''args'' = Some (VTuple [VStr ''arg1''])"
proof -
  have pickles: "example_dumps (ValueObj (VDict (document example_payload))) = Inr example_pickled"
    by (simp add: example_dumps_def)
  have unpickles: "example_loads example_pickled = Inr (ValueObj (VDict (document example_payload)))"
    by (simp add: example_loads_def)
  have wire: "string_escape_encode example_pickled = example_wire"
    by (simp add: string_escape_encode_def escape_char_def example_pickled_def example_wire_def)
  have "args example_payload = [VStr ''arg1'']"
    by (simp add: example_payload_def Payload_def)
  with deserialize_serialize_gives_document
      [where dumps = example_dumps and loads = example_loads and p = example_payload,
       OF pickles unpickles] wire
  show ?thesis by simp
qed

text \<open>
  C1 as stated fails: the example payload serializes, the result deserializes, and the
  payload is not equal to what comes back.
\<close>

theorem deserialized_payload_not_equal:
  "serialize example_dumps example_payload = Inr example_wire
   \<and> deserialize example_loads example_wire = Inr (ValueObj (VDict (document example_payload)))
   \<and> \<not> payload_eq example_payload (ValueObj (VDict (document example_payload)))"
proof -
  have wire: "string_escape_encode example_pickled = example_wire"
    by (simp add: string_escape_encode_def escape_char_def example_pickled_def example_wire_def)
  have decoded: "string_escape_decode example_wire = Inr example_pickled"
    using string_escape_roundtrip [of example_pickled] by (simp add: wire)
  show ?thesis
    by (simp add: serialize_document example_dumps_def wire deserialize_def decoded
        example_loads_def payload_eq_def)
qed

section \<open>Properties of the provisioner\<close>

subsection \<open>What each function does to the state\<close>


lemmas prog_defs = bindp_def thenp_def return_def raise_def lift_def
lemmas const_defs = VM_MACHINE_NAME_def VM_NIC_TYPE_def VM_PERSIST_DIR_def VM_CP_DIR_def VM_ASSETS_DIR_def

lemma names_machine_vm_list_line: "names_machine (splitlines vm_list_line)"
  by (simp add: vm_list_line_def splitlines_def const_defs)

lemma splitlines_nictype1_line:
  "splitlines (''nictype1='' @ [dq] @ nic_name t @ [dq, nl] @ rest) =
     (''nictype1='' @ [dq] @ nic_name t @ [dq]) # splitlines rest"
  by (cases t) (simp_all add: splitlines_def)

lemma nictype1_differs_line:
  "nictype1_differs ((''nictype1='' @ [dq] @ nic_name t @ [dq]) # rest) =
     (t \<noteq> Am79C973 \<or> nictype1_differs rest)"
  by (cases t) (simp_all add: const_defs)

lemma splitlines_Nil: "splitlines [] = []"
  by (simp add: splitlines_def)

lemma run_process_eq:
  "run_process argv w =
     (if failing w (length (log w)) then (Inl (CalledProcessError argv), w\<lparr>log := log w @ [argv]\<rparr>)
      else (Inr (stdout_of argv w), effect_of argv (w\<lparr>log := log w @ [argv]\<rparr>)))"
  by (simp add: run_process_def Let_def)

lemma dusty_vm_exists_eq:
  "dusty_vm_exists w =
     (if failing w (length (log w)) then Inl (CalledProcessError [''VBoxManage'', ''list'', ''vms''])
      else Inr (vm_status w \<noteq> Absent),
      w\<lparr>log := log w @ [[''VBoxManage'', ''list'', ''vms'']]\<rparr>)"
  by (simp add: dusty_vm_exists_def check_output_demoted_def prog_defs run_process_eq
      stdout_of_def effect_of_def names_machine_vm_list_line splitlines_Nil)

lemma docker_vm_is_running_eq:
  "docker_vm_is_running w =
     (if failing w (length (log w)) then Inl (CalledProcessError [''VBoxManage'', ''list'', ''runningvms''])
      else Inr (vm_status w = Running),
      w\<lparr>log := log w @ [[''VBoxManage'', ''list'', ''runningvms'']]\<rparr>)"
  by (simp add: docker_vm_is_running_def check_output_demoted_def prog_defs run_process_eq
      stdout_of_def effect_of_def names_machine_vm_list_line splitlines_Nil)

lemma vm_not_using_pcnet_fast_iii_eq:
  "vm_not_using_pcnet_fast_iii w =
     (if failing w (length (log w))
      then Inl (CalledProcessError [''VBoxManage'', ''showvminfo'', ''--machinereadable'', ''dusty''])
      else Inr (nictype1 w \<noteq> Am79C973 \<or> nictype1_differs (splitlines (vminfo_rest w))),
      w\<lparr>log := log w @ [[''VBoxManage'', ''showvminfo'', ''--machinereadable'', ''dusty'']]\<rparr>)"
  by (simp add: vm_not_using_pcnet_fast_iii_def get_vm_config_def check_output_demoted_def prog_defs
      run_process_eq stdout_of_def effect_of_def VM_MACHINE_NAME_def
      splitlines_nictype1_line [simplified] nictype1_differs_line [simplified])

lemma stop_docker_vm_eq:
  "stop_docker_vm w =
     (if failing w (length (log w)) then Inl (CalledProcessError [''docker-machine'', ''stop'', ''dusty''])
      else Inr (),
      (if failing w (length (log w)) \<or> vm_status w \<noteq> Running then w else w\<lparr>vm_status := Stopped\<rparr>)
        \<lparr>log := log w @ [[''docker-machine'', ''stop'', ''dusty'']]\<rparr>)"
  by (simp add: stop_docker_vm_def check_call_demoted_def prog_defs run_process_eq
      effect_of_def VM_MACHINE_NAME_def)

lemma apply_nic_fix_eq:
  "apply_nic_fix w =
     (if failing w (length (log w))
      then Inl (CalledProcessError [''VBoxManage'', ''modifyvm'', ''dusty'', ''--nictype1'', ''Am79C973''])
      else Inr (),
      (if failing w (length (log w)) then w else w\<lparr>nictype1 := Am79C973\<rparr>)
        \<lparr>log := log w @ [[''VBoxManage'', ''modifyvm'', ''dusty'', ''--nictype1'', ''Am79C973'']]\<rparr>)"
  by (simp add: apply_nic_fix_def check_call_demoted_def prog_defs run_process_eq
      effect_of_def const_defs nic_of_name_def)


lemma init_docker_vm_eq:
  "init_docker_vm w =
     (if failing w (length (log w)) then
        (Inl (CalledProcessError [''VBoxManage'', ''list'', ''vms'']),
         w\<lparr>log := log w @ [[''VBoxManage'', ''list'', ''vms'']]\<rparr>)
      else if vm_status w \<noteq> Absent then
        (Inr (), w\<lparr>log := log w @ [[''VBoxManage'', ''list'', ''vms'']]\<rparr>)
      else if failing w (Suc (length (log w))) then
        (Inl (CalledProcessError
               ([''docker-machine'', ''create''] @ machine_options (mem_size w) @ [''dusty''])),
         w\<lparr>log := log w @ [[''VBoxManage'', ''list'', ''vms''],
               [''docker-machine'', ''create''] @ machine_options (mem_size w) @ [''dusty'']]\<rparr>)
      else
        (Inr (), w\<lparr>vm_status := Running, nictype1 := I82540EM,
               log := log w @ [[''VBoxManage'', ''list'', ''vms''],
               [''docker-machine'', ''create''] @ machine_options (mem_size w) @ [''dusty'']]\<rparr>))"
  by (simp add: init_docker_vm_def dusty_vm_exists_eq prog_defs check_call_demoted_def
      run_process_eq effect_of_def VM_MACHINE_NAME_def machine_options_def)

lemma start_docker_vm_eq:
  "start_docker_vm w =
     (if failing w (length (log w)) then
        (Inl (CalledProcessError [''VBoxManage'', ''list'', ''runningvms'']),
         w\<lparr>log := log w @ [[''VBoxManage'', ''list'', ''runningvms'']]\<rparr>)
      else if vm_status w = Running then
        (Inr True, w\<lparr>log := log w @ [[''VBoxManage'', ''list'', ''runningvms'']]\<rparr>)
      else if failing w (Suc (length (log w))) then
        (Inl (CalledProcessError (start_commands ! 0)),
         w\<lparr>log := log w @ [[''VBoxManage'', ''list'', ''runningvms'']] @ take 1 start_commands\<rparr>)
      else if failing w (Suc (Suc (length (log w)))) then
        (Inl (CalledProcessError (start_commands ! 1)),
         w\<lparr>log := log w @ [[''VBoxManage'', ''list'', ''runningvms'']] @ take 2 start_commands\<rparr>)
      else if failing w (Suc (Suc (Suc (length (log w))))) then
        (Inl (CalledProcessError (start_commands ! 2)),
         w\<lparr>log := log w @ [[''VBoxManage'', ''list'', ''runningvms'']] @ start_commands\<rparr>)
      else
        (Inr False,
         w\<lparr>vm_status := (if vm_status w = Stopped then Running else vm_status w),
           log := log w @ [[''VBoxManage'', ''list'', ''runningvms'']] @ start_commands\<rparr>))"
  by (simp add: start_docker_vm_def docker_vm_is_running_eq prog_defs start_commands_def
     apply_nat_dns_host_resolver_def apply_nat_net_less_greedy_subnet_def
     check_and_log_output_and_error_demoted_def run_process_eq effect_of_def VM_MACHINE_NAME_def)

lemma appends_return: "appends P (return x)"
  by (simp add: appends_def return_def)

lemma appends_bindp:
  assumes "appends P m" and "\<And>x. appends P (f x)"
  shows "appends P (bindp m f)"
  unfolding appends_def
proof
  fix w
  obtain r w1 where m: "m w = (r, w1)" by (cases "m w")
  from assms(1) m obtain pre where pre: "log w1 = log w @ pre" "list_all P pre"
    unfolding appends_def by (metis snd_conv)
  show "\<exists>pre. log (snd (bindp m f w)) = log w @ pre \<and> list_all P pre"
  proof (cases r)
    case (Inl e)
    then show ?thesis using m pre by (simp add: bindp_def)
  next
    case (Inr x)
    from assms(2) [of x] obtain post where
      "log (snd (f x w1)) = log w1 @ post" "list_all P post"
      unfolding appends_def by blast
    then show ?thesis using m pre Inr by (simp add: bindp_def)
  qed
qed

lemma appends_thenp: "appends P m \<Longrightarrow> appends P k \<Longrightarrow> appends P (thenp m k)"
  by (simp add: thenp_def appends_bindp)

lemma log_effect_of: "log (effect_of argv w) = log w"
  by (simp add: effect_of_def split: option.split)

lemma appends_run_process: "P argv \<Longrightarrow> appends P (run_process argv)"
  by (simp add: appends_def run_process_eq log_effect_of)

lemma appends_if: "appends P a \<Longrightarrow> appends P b \<Longrightarrow> appends P (if c then a else b)"
  by simp


lemma appends_check_call: "P argv \<Longrightarrow> appends P (check_call_demoted argv)"
  by (simp add: check_call_demoted_def appends_thenp appends_run_process appends_return)

lemma appends_create:
  "appends no_ssh (\<lambda>w. check_call_demoted
     ([''docker-machine'', ''create''] @ machine_options (mem_size w) @ [VM_MACHINE_NAME]) w)"
  by (simp add: appends_def check_call_demoted_def prog_defs run_process_eq log_effect_of
      no_ssh_def)

lemma appends_dusty_vm_exists: "appends no_ssh dusty_vm_exists"
  by (simp add: dusty_vm_exists_def check_output_demoted_def appends_bindp appends_run_process
      appends_return no_ssh_def)

lemma appends_docker_vm_is_running: "appends no_ssh docker_vm_is_running"
  by (simp add: docker_vm_is_running_def check_output_demoted_def appends_bindp
      appends_run_process appends_return no_ssh_def)

lemma appends_init_docker_vm: "appends no_ssh init_docker_vm"
  unfolding init_docker_vm_def
  by (rule appends_bindp [OF appends_dusty_vm_exists])
     (simp add: appends_create [simplified] appends_return)

lemma appends_vm_not_using_pcnet_fast_iii: "appends no_ssh vm_not_using_pcnet_fast_iii"
  by (simp add: vm_not_using_pcnet_fast_iii_def get_vm_config_def check_output_demoted_def
      appends_bindp appends_run_process appends_return no_ssh_def)

lemma appends_stop_docker_vm: "appends no_ssh stop_docker_vm"
  by (simp add: stop_docker_vm_def appends_check_call no_ssh_def)

lemma appends_apply_nic_fix: "appends no_ssh apply_nic_fix"
  by (simp add: apply_nic_fix_def appends_check_call no_ssh_def)

lemma appends_start_docker_vm: "appends no_ssh start_docker_vm"
  by (simp add: start_docker_vm_def apply_nat_dns_host_resolver_def
      apply_nat_net_less_greedy_subnet_def check_and_log_output_and_error_demoted_def
      appends_bindp appends_thenp appends_run_process appends_return
      appends_docker_vm_is_running no_ssh_def)

lemma appends_ensure_docker_vm_is_started: "appends no_ssh ensure_docker_vm_is_started"
  by (simp add: ensure_docker_vm_is_started_def appends_bindp appends_thenp appends_return
      appends_init_docker_vm appends_vm_not_using_pcnet_fast_iii appends_docker_vm_is_running
      appends_stop_docker_vm appends_apply_nic_fix appends_start_docker_vm)

lemma bootstrap_not_no_ssh: "c \<in> set bootstrap_commands \<Longrightarrow> \<not> no_ssh c"
  by (auto simp: bootstrap_commands_def no_ssh_def)

lemma ensure_issues_no_bootstrap:
  assumes "ensure_docker_vm_is_started w = (r, w1)"
  shows "\<exists>pre. log w1 = log w @ pre \<and> set pre \<inter> set bootstrap_commands = {}"
proof -
  from appends_ensure_docker_vm_is_started assms obtain pre where
    pre: "log w1 = log w @ pre" "list_all no_ssh pre"
    unfolding appends_def by (metis snd_conv)
  from pre(2) have "set pre \<inter> set bootstrap_commands = {}"
    using bootstrap_not_no_ssh by (auto simp: list_all_iff)
  with pre(1) show ?thesis by blast
qed




lemma bootstrap_log:
  "prefix (log w) (log (snd (bootstrap w)))
   \<and> prefix (log (snd (bootstrap w))) (log w @ bootstrap_commands)
   \<and> (fst (bootstrap w) = Inr () \<longrightarrow> log (snd (bootstrap w)) = log w @ bootstrap_commands)
   \<and> ((\<forall>n. \<not> failing w n) \<longrightarrow> fst (bootstrap w) = Inr ())"
  by (simp add: bootstrap_def ensure_rsync_is_installed_def ensure_persist_dir_is_linked_def
     ensure_cp_dir_exists_def ensure_assets_dir_exists_def ensure_vm_dir_exists_def
     run_command_on_vm_def command_for_vm_def check_and_log_output_and_error_demoted_def
     run_process_eq prog_defs const_defs Let_def effect_of_def rm_asset_prefix_def
     bootstrap_commands_def)




lemma ensure_result:
  assumes "ensure_docker_vm_is_started w = (Inr was, w1)"
  shows "was = (vm_status w = Running \<and> nictype1 w = Am79C973 \<and>
                \<not> nictype1_differs (splitlines (vminfo_rest w)))"
  using assms
  by (simp add: ensure_docker_vm_is_started_def init_docker_vm_eq vm_not_using_pcnet_fast_iii_eq
      docker_vm_is_running_eq stop_docker_vm_eq apply_nic_fix_eq start_docker_vm_eq
      prog_defs split: if_splits)

lemma ensure_example_world: "ensure_docker_vm_is_started example_world =
   (Inr False, example_world\<lparr>nictype1 := Am79C973, log := nic_fix_commands\<rparr>)"
  by (simp add: example_world_def ensure_docker_vm_is_started_def init_docker_vm_eq vm_not_using_pcnet_fast_iii_eq
      docker_vm_is_running_eq stop_docker_vm_eq apply_nic_fix_eq start_docker_vm_eq
      prog_defs nic_fix_commands_def start_commands_def)

subsection \<open>The claims\<close>

text \<open>
  C5. When the machine runs and the type of its NIC 1 is not the required one, a run of
  \<open>ensure_docker_vm_is_started\<close> issues an initial part of the sequence probe, probe,
  probe, stop, NIC change, probe, network setting, network setting, start; so stop comes
  before the NIC change and the NIC change before start, and none is skipped. A run that
  returns has issued the whole sequence and reports that the machine was not already
  running; where no command fails the run returns.
\<close>

theorem stop_then_nic_fix_then_start:
  assumes "vm_status w = Running" and "nictype1 w \<noteq> Am79C973"
  shows "prefix (log w) (log (snd (ensure_docker_vm_is_started w)))
       \<and> prefix (log (snd (ensure_docker_vm_is_started w))) (log w @ nic_fix_commands)
       \<and> (\<forall>b. fst (ensure_docker_vm_is_started w) = Inr b \<longrightarrow>
             \<not> b \<and> log (snd (ensure_docker_vm_is_started w)) = log w @ nic_fix_commands)
       \<and> ((\<forall>n. \<not> failing w n) \<longrightarrow> fst (ensure_docker_vm_is_started w) = Inr False)"
  using assms
  by (simp add: ensure_docker_vm_is_started_def init_docker_vm_eq vm_not_using_pcnet_fast_iii_eq
      docker_vm_is_running_eq stop_docker_vm_eq apply_nic_fix_eq start_docker_vm_eq
      prog_defs nic_fix_commands_def start_commands_def)

theorem stop_then_nic_fix_then_start_witness:
  "vm_status example_world = Running \<and> nictype1 example_world \<noteq> Am79C973
   \<and> fst (ensure_docker_vm_is_started example_world) = Inr False
   \<and> log (snd (ensure_docker_vm_is_started example_world)) = nic_fix_commands"
proof -
  have running: "vm_status example_world = Running"
    and differs: "nictype1 example_world \<noteq> Am79C973"
    and no_failure: "\<forall>n. \<not> failing example_world n"
    and empty_log: "log example_world = []"
    by (simp_all add: example_world_def)
  from stop_then_nic_fix_then_start [OF running differs] no_failure empty_log
  show ?thesis using running differs by simp
qed

text \<open>
  C6. Let the start step of a run of \<open>initialize_docker_vm\<close> return
  \<open>was_already_running\<close>. If it is true the run ends there and issues nothing more. If it
  is false the run goes on with an initial part of the bootstrap commands, in order. A run
  that returns has issued each bootstrap command exactly once if the start step found the
  machine not running, and not at all if it found it running. The start step finds the
  machine running exactly when it ran at the beginning with the required type of NIC 1.
\<close>

theorem bootstrap_once_or_never:
  assumes "ensure_docker_vm_is_started w = (Inr was_already_running, w1)"
  shows "(was_already_running \<longrightarrow> initialize_docker_vm w = (Inr (), w1))
       \<and> (\<not> was_already_running \<longrightarrow>
            prefix (log w1) (log (snd (initialize_docker_vm w))) \<and>
            prefix (log (snd (initialize_docker_vm w))) (log w1 @ bootstrap_commands))
       \<and> (fst (initialize_docker_vm w) = Inr () \<longrightarrow>
            (\<forall>c \<in> set bootstrap_commands.
               count_list (drop (length (log w)) (log (snd (initialize_docker_vm w)))) c =
                 (if was_already_running then 0 else 1)))
       \<and> was_already_running =
            (vm_status w = Running \<and> nictype1 w = Am79C973 \<and>
             \<not> nictype1_differs (splitlines (vminfo_rest w)))"
proof -
  have init: "initialize_docker_vm w = (if was_already_running then (Inr (), w1) else bootstrap w1)"
    using assms by (simp add: initialize_docker_vm_def bootstrap_def prog_defs)
  from ensure_issues_no_bootstrap [OF assms] obtain pre where
    pre: "log w1 = log w @ pre" "set pre \<inter> set bootstrap_commands = {}" by blast
  have none: "c \<in> set bootstrap_commands \<Longrightarrow> count_list pre c = 0" for c
    using pre(2) by (auto simp: count_list_0_iff)
  have once: "c \<in> set bootstrap_commands \<Longrightarrow> count_list bootstrap_commands c = 1" for c
    by (auto simp: bootstrap_commands_def)
  have count: "fst (initialize_docker_vm w) = Inr () \<Longrightarrow> c \<in> set bootstrap_commands \<Longrightarrow>
      count_list (drop (length (log w)) (log (snd (initialize_docker_vm w)))) c =
        (if was_already_running then 0 else 1)" for c
    using bootstrap_log [of w1] none [of c] once [of c]
    by (simp add: init pre(1) split: if_splits)
  show ?thesis
    using bootstrap_log [of w1] count ensure_result [OF assms] by (simp add: init)
qed

theorem bootstrap_once_or_never_witness:
  "ensure_docker_vm_is_started example_world =
     (Inr False, example_world\<lparr>nictype1 := Am79C973, log := nic_fix_commands\<rparr>)
   \<and> fst (initialize_docker_vm example_world) = Inr ()
   \<and> count_list (log (snd (initialize_docker_vm example_world)))
        [''docker-machine'', ''ssh'', ''dusty'', ''if [ ! -d /cp ]; then sudo mkdir /cp; fi''] = 1"
proof -
  let ?w1 = "example_world\<lparr>nictype1 := Am79C973, log := nic_fix_commands\<rparr>"
  have "initialize_docker_vm example_world = bootstrap ?w1"
    by (simp add: initialize_docker_vm_def bootstrap_def prog_defs ensure_example_world)
  moreover have "\<forall>n. \<not> failing ?w1 n"
    by (simp add: example_world_def)
  ultimately have returns: "fst (initialize_docker_vm example_world) = Inr ()"
    using bootstrap_log [of ?w1] by simp
  have cmd: "[''docker-machine'', ''ssh'', ''dusty'', ''if [ ! -d /cp ]; then sudo mkdir /cp; fi'']
      \<in> set bootstrap_commands"
    by (simp add: bootstrap_commands_def)
  have empty_log: "log example_world = []"
    by (simp add: example_world_def)
  from bootstrap_once_or_never [OF ensure_example_world] returns cmd empty_log
  show ?thesis using ensure_example_world by simp
qed

text \<open>
  C7 (the code departs from it). \<open>_stop_docker_vm\<close> hands exactly one command line to the
  runner, the stop command, whatever the state of the machine: it makes no probe, and on
  a stopped machine it issues the stop command all the same.
\<close>

theorem stop_docker_vm_issues_stop_unconditionally:
  "stop_docker_vm w =
     (if failing w (length (log w))
      then Inl (CalledProcessError [''docker-machine'', ''stop'', ''dusty'']) else Inr (),
      (if failing w (length (log w)) \<or> vm_status w \<noteq> Running then w
       else w\<lparr>vm_status := Stopped\<rparr>)
        \<lparr>log := log w @ [[''docker-machine'', ''stop'', ''dusty'']]\<rparr>)"
  by (simp add: stop_docker_vm_def check_call_demoted_def prog_defs run_process_eq
      effect_of_def VM_MACHINE_NAME_def)


section \<open>Properties of the memoized queries and of the asset store\<close>

subsection \<open>Memoization\<close>

text \<open>
  C9. Let \<open>q\<close> be the query behind a memoized accessor with key \<open>key\<close>, and let \<open>obs\<close> count
  the invocations of \<open>q\<close>: each run of \<open>q\<close> raises it by one, and it does not read the cache.
  From a state where the key is not cached and \<open>q\<close> succeeds with \<open>v\<close>, the first call
  returns \<open>v\<close> and caches it, the second call returns \<open>v\<close> again and leaves the state as it
  is, so that after the two calls \<open>q\<close> has run once; after \<open>reset_memoize_cache\<close> one more
  call brings the count to two.
\<close>

theorem memoized_one_underlying_call:
  fixes q :: "('x memo_scheme, pyval) prog" and obs :: "'x memo_scheme \<Rightarrow> int"
  assumes uncached: "cache s key = None"
      and succeeds: "q s = (Inr v, s1)"
      and counts: "\<forall>t. obs (snd (q t)) = obs t + 1"
      and blind: "\<forall>t c. obs (t\<lparr>cache := c\<rparr>) = obs t"
  shows "memoized key q s = (Inr v, s1\<lparr>cache := (cache s1)(key \<mapsto> v)\<rparr>)
       \<and> memoized key q (s1\<lparr>cache := (cache s1)(key \<mapsto> v)\<rparr>) =
           (Inr v, s1\<lparr>cache := (cache s1)(key \<mapsto> v)\<rparr>)
       \<and> obs (s1\<lparr>cache := (cache s1)(key \<mapsto> v)\<rparr>) = obs s + 1
       \<and> obs (snd (memoized key q
                 (snd (reset_memoize_cache (s1\<lparr>cache := (cache s1)(key \<mapsto> v)\<rparr>))))) = obs s + 2"
proof -
  let ?s2 = "s1\<lparr>cache := (cache s1)(key \<mapsto> v)\<rparr>"
  have first: "memoized key q s = (Inr v, ?s2)"
    using uncached succeeds by (simp add: memoized_def)
  have second: "memoized key q ?s2 = (Inr v, ?s2)"
    by (simp add: memoized_def)
  have "obs s1 = obs s + 1"
    using counts [rule_format, of s] succeeds by simp
  then have one: "obs ?s2 = obs s + 1"
    using blind by simp
  let ?s3 = "snd (reset_memoize_cache ?s2)"
  have s3: "cache ?s3 key = None" "obs ?s3 = obs s + 1"
    using one blind by (simp_all add: reset_memoize_cache_def)
  obtain r t where q3: "q ?s3 = (r, t)" by (cases "q ?s3")
  then have "obs t = obs ?s3 + 1"
    using counts [rule_format, of ?s3] by simp
  then have "obs (snd (memoized key q ?s3)) = obs s + 2"
    using s3 q3 blind by (cases r) (simp_all add: memoized_def)
  with first second one show ?thesis by simp
qed

text \<open>
  The theorem at the counter function of the unit test, where it gives the three tests of
  \<open>memoize_test.py\<close>, and at \<open>get_docker_vm_ip\<close> on the example machine, with the number of
  \<open>docker-machine ip\<close> commands in the log as the count.
\<close>

theorem memoized_one_underlying_call_witness:
  "(fst (memoized_fn \<lparr>cache = Map.empty, counter = 0\<rparr>) = Inr (VInt 1)
    \<and> fst (memoized_fn (snd (memoized_fn \<lparr>cache = Map.empty, counter = 0\<rparr>))) = Inr (VInt 1)
    \<and> counter (snd (memoized_fn (snd (memoized_fn \<lparr>cache = Map.empty, counter = 0\<rparr>)))) = 1
    \<and> counter (snd (memoized_fn (snd (reset_memoize_cache
         (snd (memoized_fn (snd (memoized_fn \<lparr>cache = Map.empty, counter = 0\<rparr>)))))))) = 2)
   \<and> (fst (get_docker_vm_ip example_world) = Inr (VStr ''192.168.99.100'')
    \<and> get_docker_vm_ip (snd (get_docker_vm_ip example_world)) =
        (Inr (VStr ''192.168.99.100''), snd (get_docker_vm_ip example_world))
    \<and> count_list (log (snd (get_docker_vm_ip example_world)))
         [''docker-machine'', ''ip'', ''dusty''] = 1
    \<and> count_list (log (snd (get_docker_vm_ip (snd (reset_memoize_cache
         (snd (get_docker_vm_ip example_world)))))))
         [''docker-machine'', ''ip'', ''dusty''] = 2)"
proof (rule conjI)
  let ?q = "\<lambda>self. (Inr (VInt (counter self + 1)), self\<lparr>counter := counter self + 1\<rparr>)
             :: (error + pyval) \<times> test_case"
  let ?s = "\<lparr>cache = Map.empty, counter = 0\<rparr> :: test_case"
  have uncached: "cache ?s ''memoized_fn'' = None" by simp
  have succeeds: "?q ?s = (Inr (VInt 1), \<lparr>cache = Map.empty, counter = 1\<rparr>)" by simp
  have counts: "\<forall>t. counter (snd (?q t)) = counter t + 1" by simp
  have blind: "\<forall>t c. counter (t\<lparr>cache := c\<rparr>) = counter t" by simp
  from memoized_one_underlying_call [of ?s "''memoized_fn''" ?q, OF uncached succeeds counts blind]
  show "fst (memoized_fn ?s) = Inr (VInt 1)
    \<and> fst (memoized_fn (snd (memoized_fn ?s))) = Inr (VInt 1)
    \<and> counter (snd (memoized_fn (snd (memoized_fn ?s)))) = 1
    \<and> counter (snd (memoized_fn (snd (reset_memoize_cache
         (snd (memoized_fn (snd (memoized_fn ?s)))))))) = 2"
    by (simp add: memoized_fn_def)
next
  let ?q = "bindp (check_output_demoted [''docker-machine'', ''ip'', VM_MACHINE_NAME])
              (\<lambda>out. return (VStr (rstrip out)))"
  let ?obs = "\<lambda>w :: world. int (count_list (log w) [''docker-machine'', ''ip'', ''dusty''])"
  let ?w1 = "example_world\<lparr>log := [[''docker-machine'', ''ip'', ''dusty'']]\<rparr>"
  have uncached: "cache example_world ''get_docker_vm_ip'' = None"
    by (simp add: example_world_def)
  have succeeds: "?q example_world = (Inr (VStr ''192.168.99.100''), ?w1)"
    by (simp add: check_output_demoted_def run_process_eq prog_defs stdout_of_def effect_of_def
        VM_MACHINE_NAME_def)
       (simp add: example_world_def rstrip_def is_space_def)
  have counts: "\<forall>t. ?obs (snd (?q t)) = ?obs t + 1"
    by (simp add: check_output_demoted_def run_process_eq prog_defs log_effect_of
        VM_MACHINE_NAME_def)
  have blind: "\<forall>t c. ?obs (t\<lparr>cache := c\<rparr>) = ?obs t"
    by simp
  have empty_log: "log example_world = []"
    by (simp add: example_world_def)
  from memoized_one_underlying_call [of example_world "''get_docker_vm_ip''" ?q _ ?w1 ?obs,
      OF uncached succeeds counts blind] empty_log
  show "fst (get_docker_vm_ip example_world) = Inr (VStr ''192.168.99.100'')
    \<and> get_docker_vm_ip (snd (get_docker_vm_ip example_world)) =
        (Inr (VStr ''192.168.99.100''), snd (get_docker_vm_ip example_world))
    \<and> count_list (log (snd (get_docker_vm_ip example_world)))
         [''docker-machine'', ''ip'', ''dusty''] = 1
    \<and> count_list (log (snd (get_docker_vm_ip (snd (reset_memoize_cache
         (snd (get_docker_vm_ip example_world)))))))
         [''docker-machine'', ''ip'', ''dusty''] = 2"
    by (simp add: get_docker_vm_ip_def)
qed

subsection \<open>The asset store\<close>

lemma splitlines_from_line:
  "nl \<notin> set a \<Longrightarrow> cr \<notin> set a \<Longrightarrow>
   splitlines_from cur (a @ nl # rest) = (cur @ a) # splitlines_from [] rest"
  by (induction a arbitrary: cur) auto

lemma splitlines_listing:
  "\<forall>a \<in> set xs. nl \<notin> set a \<and> cr \<notin> set a \<Longrightarrow>
   splitlines (concat (map (\<lambda>a. a @ [nl]) xs)) = xs"
  unfolding splitlines_def
  by (induction xs) (simp_all add: splitlines_from_line)

lemma asset_is_set_cached:
  "cache w ''get_assets_on_vm'' = Some v \<Longrightarrow> asset_is_set k w = (py_in k v, w)"
  by (simp add: asset_is_set_def get_assets_on_vm_def memoized_def prog_defs)

lemma remove_asset_eq:
  assumes "\<not> startswith k ''/''"
  shows "remove_asset k w =
     (if failing w (length (log w)) then
        (Inl (CalledProcessError
               [''docker-machine'', ''ssh'', ''dusty'', ''sudo rm -f /persist/dusty_assets/'' @ k]),
         w\<lparr>log := log w @
           [[''docker-machine'', ''ssh'', ''dusty'', ''sudo rm -f /persist/dusty_assets/'' @ k]]\<rparr>)
      else
        (Inr (), w\<lparr>assets := removeAll k (assets w), log := log w @
           [[''docker-machine'', ''ssh'', ''dusty'', ''sudo rm -f /persist/dusty_assets/'' @ k]]\<rparr>))"
  using assms
  by (simp add: remove_asset_def run_command_on_vm_def command_for_vm_def asset_vm_path_def
      os_path_join_def check_and_log_output_and_error_demoted_def run_process_eq prog_defs
      const_defs effect_of_def rm_asset_prefix_def)

lemma remove_asset_cache: "cache (snd (remove_asset k w)) = cache w"
  by (simp add: remove_asset_def run_command_on_vm_def 
      check_and_log_output_and_error_demoted_def run_process_eq prog_defs
      effect_of_def split: option.split)

lemma get_assets_on_vm_uncached:
  assumes "cache w ''get_assets_on_vm'' = None"
  shows "get_assets_on_vm w =
     (if failing w (length (log w)) then
        (Inl (CalledProcessError [''docker-machine'', ''ssh'', ''dusty'', ''ls /persist/dusty_assets'']),
         w\<lparr>log := log w @ [[''docker-machine'', ''ssh'', ''dusty'', ''ls /persist/dusty_assets'']]\<rparr>)
      else
        (Inr (VSet (set (splitlines (concat (map (\<lambda>a. a @ [nl]) (assets w)))))),
         w\<lparr>log := log w @ [[''docker-machine'', ''ssh'', ''dusty'', ''ls /persist/dusty_assets'']],
           cache := (cache w)(''get_assets_on_vm'' \<mapsto>
             VSet (set (splitlines (concat (map (\<lambda>a. a @ [nl]) (assets w))))))\<rparr>))"
  using assms
  by (simp add: get_assets_on_vm_def memoized_def check_output_on_vm_def command_for_vm_def
      check_output_demoted_def run_process_eq prog_defs const_defs stdout_of_def effect_of_def
      rm_asset_prefix_def)

text \<open>
  C3 (amended). For every asset key in the cached directory listing, \<open>remove_asset\<close>
  leaves the cache as it is, and a following \<open>asset_is_set\<close> answers from the cached
  listing: true. Only after \<open>reset_memoize_cache\<close> does \<open>asset_is_set\<close> list the directory
  again and return false (for a key that is a plain file name, where no file name holds a
  line break and no command fails).
\<close>

theorem asset_listing_stale_after_remove:
  assumes cached: "cache w ''get_assets_on_vm'' = Some (VSet listing)" and present: "k \<in> listing"
  shows "asset_is_set k (snd (remove_asset k w)) = (Inr True, snd (remove_asset k w))
       \<and> cache (snd (remove_asset k w)) = cache w
       \<and> (\<not> startswith k ''/'' \<and> (\<forall>a \<in> set (assets w). nl \<notin> set a \<and> cr \<notin> set a) \<and>
          (\<forall>n. \<not> failing w n) \<longrightarrow>
            fst (asset_is_set k (snd (reset_memoize_cache (snd (remove_asset k w))))) = Inr False)"
proof -
  have stale: "asset_is_set k (snd (remove_asset k w)) = (Inr True, snd (remove_asset k w))"
    using cached present
    by (simp add: asset_is_set_cached [where v = "VSet listing"] remove_asset_cache py_in_def)
  have fresh: "fst (asset_is_set k (snd (reset_memoize_cache (snd (remove_asset k w))))) = Inr False"
    if "\<not> startswith k ''/''" and "\<forall>a \<in> set (assets w). nl \<notin> set a \<and> cr \<notin> set a"
      and "\<forall>n. \<not> failing w n"
  proof -
    let ?w3 = "snd (reset_memoize_cache (snd (remove_asset k w)))"
    have w3: "cache ?w3 ''get_assets_on_vm'' = None" "assets ?w3 = removeAll k (assets w)"
      "\<not> failing ?w3 (length (log ?w3))"
      using that by (simp_all add: remove_asset_eq reset_memoize_cache_def)
    have "\<forall>a \<in> set (removeAll k (assets w)). nl \<notin> set a \<and> cr \<notin> set a"
      using that(2) by simp
    then have "splitlines (concat (map (\<lambda>a. a @ [nl]) (removeAll k (assets w)))) =
        removeAll k (assets w)"
      by (rule splitlines_listing)
    then show ?thesis
      using w3 by (simp add: asset_is_set_def get_assets_on_vm_uncached prog_defs py_in_def)
  qed
  show ?thesis using stale fresh remove_asset_cache by blast
qed

theorem asset_listing_stale_after_remove_witness:
  "fst (asset_is_set ''a'' (snd (remove_asset ''a'' listed_world))) = Inr True
   \<and> cache (snd (remove_asset ''a'' listed_world)) = cache listed_world
   \<and> fst (asset_is_set ''a'' (snd (reset_memoize_cache (snd (remove_asset ''a'' listed_world)))))
       = Inr False"
proof -
  have cached: "cache listed_world ''get_assets_on_vm'' = Some (VSet {''a'', ''b''})"
    by (simp add: listed_world_def)
  have present: "''a'' \<in> {''a'', ''b''}"
    by simp
  have relative: "\<not> startswith ''a'' ''/''"
    by (simp add: startswith_def)
  have names: "\<forall>a \<in> set (assets listed_world). nl \<notin> set a \<and> cr \<notin> set a"
    and no_failure: "\<forall>n. \<not> failing listed_world n"
    by (simp_all add: listed_world_def example_world_def)
  from asset_listing_stale_after_remove [OF cached present] relative names no_failure
  show ?thesis by simp
qed

text \<open>
  C3 as stated fails: on the example machine, with the files \<open>a\<close> and \<open>b\<close> in the assets
  directory, \<open>asset_is_set('a')\<close>, \<open>remove_asset('a')\<close>, \<open>asset_is_set('a')\<close> ends with true,
  although the file is gone.
\<close>

theorem is_set_true_after_remove: "fst (asset_is_set ''a'' (snd (remove_asset ''a'' (snd (asset_is_set ''a'' example_world)))))
    = Inr True
  \<and> assets (snd (remove_asset ''a'' (snd (asset_is_set ''a'' example_world)))) = [''b'']"
proof -
  have un: "cache example_world ''get_assets_on_vm'' = None"
    and nf: "\<forall>n. \<not> failing example_world n"
    by (simp_all add: example_world_def)
  have first: "asset_is_set ''a'' example_world =
     (Inr True, example_world\<lparr>log := [[''docker-machine'', ''ssh'', ''dusty'', ''ls /persist/dusty_assets'']],
        cache := [''get_assets_on_vm'' \<mapsto> VSet {''a'', ''b''}]\<rparr>)"
    using nf by (simp add: asset_is_set_def get_assets_on_vm_uncached [OF un] prog_defs py_in_def)
      (simp add: example_world_def splitlines_def)
  show ?thesis
    using nf by (simp add: first remove_asset_eq startswith_def asset_is_set_cached py_in_def)
      (simp add: example_world_def)
qed

subsection \<open>The host IP\<close>
























end
